theory Spec2Isabelle
  imports Main "HOL-Library.AList"
begin

section \<open>Strings of the Python runtime\<close>

text \<open>
  A model of \<^verbatim>\<open>proxy-server.py\<close>: the request handler \<^verbatim>\<open>CORSProxyHandler\<close> and
  the exception handling of \<^verbatim>\<open>main\<close>. The calls that the source makes into the
  standard library (\<^verbatim>\<open>http.server\<close>, \<^verbatim>\<open>urllib.request\<close>, \<^verbatim>\<open>json\<close>,
  \<^verbatim>\<open>int\<close>, \<^verbatim>\<open>str\<close>) are modelled by what they do to the objects the handler
  holds; what happens behind \<^verbatim>\<open>urlopen\<close> is the environment.

  The handler works on text that the HTTP server decodes as ISO-8859-1, so a
  \<^typ>\<open>char\<close> stands for one code point below 256. Header names are ASCII: the header
  parser of the standard library accepts only printable ASCII before the colon.
  \<open>lower\<close> and \<open>capitalize\<close> are therefore the ASCII versions of
  \<^verbatim>\<open>str.lower\<close> and \<^verbatim>\<open>str.capitalize\<close>.
\<close>

definition lower_char :: "char \<Rightarrow> char" where
  "lower_char c =
     (let k = (of_char c :: nat) in if 65 \<le> k \<and> k \<le> 90 then char_of (k + 32) else c)"

definition upper_char :: "char \<Rightarrow> char" where
  "upper_char c =
     (let k = (of_char c :: nat) in if 97 \<le> k \<and> k \<le> 122 then char_of (k - 32) else c)"

definition lower :: "string \<Rightarrow> string" where
  "lower s = map lower_char s"

fun capitalize :: "string \<Rightarrow> string" where
  "capitalize [] = []"
| "capitalize (c # cs) = upper_char c # lower cs"

definition digit_char :: "nat \<Rightarrow> char" where
  "digit_char d = char_of (48 + d)"

fun str_nat :: "nat \<Rightarrow> string" where
  "str_nat n = (if n < 10 then [digit_char n] else str_nat (n div 10) @ [digit_char (n mod 10)])"

declare str_nat.simps [simp del]

text \<open>\<^verbatim>\<open>str(n)\<close> and the \<^verbatim>\<open>{n}\<close> of an f-string, for an int.\<close>

definition str_int :: "int \<Rightarrow> string" where
  "str_int i = (if i < 0 then CHR ''-'' # str_nat (nat (- i)) else str_nat (nat i))"

definition hex_digit :: "nat \<Rightarrow> char" where
  "hex_digit d = (if d < 10 then char_of (48 + d) else char_of (87 + d))"

text \<open>
  \<^verbatim>\<open>json.dumps\<close> of a dict of strings, with the defaults the source uses
  (\<^verbatim>\<open>ensure_ascii=True\<close>, separators \<^verbatim>\<open>", "\<close> and \<^verbatim>\<open>": "\<close>). The result is
  ASCII, so \<^verbatim>\<open>.encode()\<close> leaves it as it is.
\<close>

definition json_escape :: "char \<Rightarrow> string" where
  "json_escape c =
     (let k = (of_char c :: nat) in
      if k = 34 then [CHR 0x5C, CHR 0x22]
      else if k = 92 then [CHR 0x5C, CHR 0x5C]
      else if k = 10 then [CHR 0x5C, CHR ''n'']
      else if k = 13 then [CHR 0x5C, CHR ''r'']
      else if k = 9 then [CHR 0x5C, CHR ''t'']
      else if k = 8 then [CHR 0x5C, CHR ''b'']
      else if k = 12 then [CHR 0x5C, CHR ''f'']
      else if 32 \<le> k \<and> k \<le> 126 then [c]
      else [CHR 0x5C, CHR ''u'', CHR ''0'', CHR ''0'', hex_digit (k div 16), hex_digit (k mod 16)])"

definition json_string :: "string \<Rightarrow> string" where
  "json_string s = CHR 0x22 # concat (map json_escape s) @ [CHR 0x22]"

fun join :: "string \<Rightarrow> string list \<Rightarrow> string" where
  "join sep [] = []"
| "join sep [x] = x"
| "join sep (x # y # ys) = x @ sep @ join sep (y # ys)"

definition json_dumps :: "(string \<times> string) list \<Rightarrow> string" where
  "json_dumps kvs =
     ''{'' @ join '', '' (map (\<lambda>(k, v). json_string k @ '': '' @ json_string v) kvs) @ ''}''"

text \<open>
  \<^verbatim>\<open>repr(s)\<close> of a string of code points below 256, as it appears in the message of
  the \<^verbatim>\<open>ValueError\<close> that \<^verbatim>\<open>int\<close> raises.
\<close>

definition repr_char :: "char \<Rightarrow> char \<Rightarrow> string" where
  "repr_char quote c =
     (let k = (of_char c :: nat) in
      if c = quote \<or> k = 92 then [CHR 0x5C, c]
      else if k = 9 then [CHR 0x5C, CHR ''t'']
      else if k = 10 then [CHR 0x5C, CHR ''n'']
      else if k = 13 then [CHR 0x5C, CHR ''r'']
      else if k < 32 \<or> (127 \<le> k \<and> k \<le> 160) \<or> k = 173
        then [CHR 0x5C, CHR ''x'', hex_digit (k div 16), hex_digit (k mod 16)]
      else [c])"

definition py_repr :: "string \<Rightarrow> string" where
  "py_repr s =
     (let quote = (if CHR 0x27 \<in> set s \<and> CHR 0x22 \<notin> set s then CHR 0x22 else CHR 0x27)
      in quote # concat (map (repr_char quote) s) @ [quote])"

text \<open>
  \<^verbatim>\<open>int(s)\<close> on a string, as \<^verbatim>\<open>PyLong_FromString\<close> reads it in base 10: white
  space, an optional sign, then the run of digits and underscores, which must begin and
  end with a digit and have no two underscores in a row; a run of more than 4300 digits
  (the default of \<^verbatim>\<open>sys.set_int_max_str_digits\<close>) is refused next; then only white space
  may follow. The result is the number, or the message of the \<^verbatim>\<open>ValueError\<close>; the
  message for a malformed string shows the \<^verbatim>\<open>repr\<close> of the string cut after 200
  characters (format \<^verbatim>\<open>%.200R\<close>). White space here is what the C function sees after
  \<^verbatim>\<open>int\<close> has replaced the non-ASCII spaces by blanks.
\<close>

definition int_isspace :: "char \<Rightarrow> bool" where
  "int_isspace c =
     (let k = (of_char c :: nat) in (9 \<le> k \<and> k \<le> 13) \<or> k = 32 \<or> k = 133 \<or> k = 160)"

definition is_digit :: "char \<Rightarrow> bool" where
  "is_digit c = (let k = (of_char c :: nat) in 48 \<le> k \<and> k \<le> 57)"

definition digit_val :: "char \<Rightarrow> nat" where
  "digit_val c = of_char c - 48"

definition is_int_char :: "char \<Rightarrow> bool" where
  "is_int_char c = (is_digit c \<or> c = CHR ''_'')"

text \<open>
  The scan of the run: the value and the number of digits so far, and whether the last
  character was an underscore.
\<close>

fun int_run :: "nat \<Rightarrow> nat \<Rightarrow> bool \<Rightarrow> string \<Rightarrow> (nat \<times> nat) option" where
  "int_run acc digits after_underscore [] =
     (if after_underscore then None else Some (acc, digits))"
| "int_run acc digits after_underscore (c # cs) =
     (if c = CHR ''_''
      then (if after_underscore then None else int_run acc digits True cs)
      else int_run (10 * acc + digit_val c) (Suc digits) False cs)"

definition invalid_literal :: "string \<Rightarrow> string" where
  "invalid_literal s = ''invalid literal for int() with base 10: '' @ take 200 (py_repr s)"

definition exceeds_limit :: "nat \<Rightarrow> string" where
  "exceeds_limit digits =
     ''Exceeds the limit (4300 digits) for integer string conversion: value has ''
       @ str_nat digits @ '' digits; use sys.set_int_max_str_digits() to increase the limit''"

definition py_int :: "string \<Rightarrow> string + int" where
  "py_int s =
     (let t = dropWhile int_isspace s;
          negative = (take 1 t = ''-'');
          u = (if take 1 t = ''-'' \<or> take 1 t = ''+'' then drop 1 t else t);
          run = takeWhile is_int_char u;
          rest = dropWhile is_int_char u
      in if run = [] \<or> take 1 run = ''_'' then Inl (invalid_literal s)
         else (case int_run 0 0 False run of
                 None \<Rightarrow> Inl (invalid_literal s)
               | Some (n, digits) \<Rightarrow>
                   if 4300 < digits then Inl (exceeds_limit digits)
                   else if dropWhile int_isspace rest \<noteq> [] then Inl (invalid_literal s)
                   else Inr (if negative then - int n else int n)))"

text \<open>
  The functions of \<^verbatim>\<open>urllib.parse\<close> through which \<^verbatim>\<open>Request\<close> takes its URL:
  \<^verbatim>\<open>unwrap\<close> (with \<^verbatim>\<open>str.strip\<close>), \<^verbatim>\<open>_splittag\<close>, \<^verbatim>\<open>_splittype\<close> and
  \<^verbatim>\<open>_splithost\<close>.
\<close>

definition str_isspace :: "char \<Rightarrow> bool" where
  "str_isspace c =
     (let k = (of_char c :: nat)
      in (9 \<le> k \<and> k \<le> 13) \<or> (28 \<le> k \<and> k \<le> 32) \<or> k = 133 \<or> k = 160)"

definition str_strip :: "string \<Rightarrow> string" where
  "str_strip s = rev (dropWhile str_isspace (rev (dropWhile str_isspace s)))"

definition unwrap :: "string \<Rightarrow> string" where
  "unwrap url =
     (let url1 = str_strip url;
          url2 = (if take 1 url1 = ''<'' \<and> take 1 (rev url1) = ''>''
                  then str_strip (butlast (drop 1 url1)) else url1)
      in if take 4 url2 = ''URL:'' then str_strip (drop 4 url2) else url2)"

text \<open>\<^verbatim>\<open>url.rpartition('#')\<close>: the split at the last \<open>#\<close>, if there is one.\<close>

definition splittag :: "string \<Rightarrow> string \<times> string option" where
  "splittag url =
     (if CHR ''#'' \<in> set url
      then (rev (drop 1 (dropWhile (\<lambda>c. c \<noteq> CHR ''#'') (rev url))),
            Some (rev (takeWhile (\<lambda>c. c \<noteq> CHR ''#'') (rev url))))
      else (url, None))"

text \<open>The match of \<^verbatim>\<open>([^/:]+):(.*)\<close> at the start of the URL.\<close>

definition splittype :: "string \<Rightarrow> string option \<times> string" where
  "splittype url =
     (let scheme = takeWhile (\<lambda>c. c \<noteq> CHR ''/'' \<and> c \<noteq> CHR '':'') url;
          rest = dropWhile (\<lambda>c. c \<noteq> CHR ''/'' \<and> c \<noteq> CHR '':'') url
      in if scheme \<noteq> [] \<and> take 1 rest = '':'' then (Some (lower scheme), drop 1 rest)
         else (None, url))"

text \<open>The match of \<^verbatim>\<open>//([^/#?]*)(.*)\<close>, and the slash put before a path without one.\<close>

definition splithost :: "string \<Rightarrow> string option \<times> string" where
  "splithost url =
     (if take 2 url = ''//''
      then (let host_port =
                  takeWhile (\<lambda>c. c \<noteq> CHR ''/'' \<and> c \<noteq> CHR ''#'' \<and> c \<noteq> CHR ''?'') (drop 2 url);
                path =
                  dropWhile (\<lambda>c. c \<noteq> CHR ''/'' \<and> c \<noteq> CHR ''#'' \<and> c \<noteq> CHR ''?'') (drop 2 url)
            in (Some host_port,
                if path \<noteq> [] \<and> take 1 path \<noteq> ''/'' then CHR ''/'' # path else path))
      else (None, url))"

section \<open>Data model\<close>

text \<open>Header containers keep order and duplicates: \<^verbatim>\<open>Message.items()\<close> is a list of pairs.\<close>

type_synonym headers = "(string \<times> string) list"

datatype http_method = GET | POST | PUT | DELETE | OPTIONS

text \<open>
  The request as \<^verbatim>\<open>BaseHTTPRequestHandler\<close> hands it to a \<^verbatim>\<open>do_*\<close> method:
  the command, the request target, the parsed headers and the bytes still to be read from
  the connection. The request is an HTTP/1.x one (for an HTTP/0.9 request line the base
  class writes no status line and no header at all).
\<close>

record inbound =
  command :: http_method
  path :: string
  headers :: headers
  rfile :: string

record config =
  target_host :: string
  target_port :: int

text \<open>
  \<^verbatim>\<open>urllib.request.Request\<close>. The object keeps the URL without its fragment
  (attribute \<^verbatim>\<open>_full_url\<close>), the fragment, the body, the method and the header dict. A
  Python dict keeps insertion order and has one value for each key, hence an association
  list that is only changed through \<^const>\<open>AList.update\<close>.
\<close>

record request =
  private_full_url :: string
  fragment :: "string option"
  data :: "string option"
  req_method :: string
  req_headers :: headers

text \<open>The constructor, for a URL that it accepts, with \<^verbatim>\<open>data\<close> and \<^verbatim>\<open>method\<close>.\<close>

definition Request :: "string \<Rightarrow> string option \<Rightarrow> string \<Rightarrow> request" where
  "Request url post_data method =
     \<lparr>private_full_url = fst (splittag (unwrap url)), fragment = snd (splittag (unwrap url)),
      data = post_data, req_method = method, req_headers = []\<rparr>"

text \<open>
  The property \<^verbatim>\<open>full_url\<close> puts a non-empty fragment back; \<^verbatim>\<open>selector\<close> is the
  path and query that the HTTP connection sends to the origin, taken from the URL without
  the fragment.
\<close>

definition full_url :: "request \<Rightarrow> string" where
  "full_url req =
     (case fragment req of
        None \<Rightarrow> private_full_url req
      | Some tag \<Rightarrow>
          if tag \<noteq> [] then private_full_url req @ ''#'' @ tag else private_full_url req)"

definition selector :: "request \<Rightarrow> string" where
  "selector req = snd (splithost (snd (splittype (private_full_url req))))"

text \<open>
  What \<^verbatim>\<open>urlopen\<close> gives back: a response object, whose \<^verbatim>\<open>read()\<close> returns the
  body or raises (the message of the exception is kept), or an exception. The source tells
  \<^verbatim>\<open>urllib.error.HTTPError\<close> (code, reason, body of the error response) from every
  other exception, of which only \<^verbatim>\<open>str(e)\<close> is used.
\<close>

datatype exn = HTTPError int string string | Exception string

record origin_response =
  getcode :: int
  resp_headers :: headers
  read :: "string + string"

datatype urlopen_result = Raises exn | Returns origin_response

text \<open>
  The environment of one handler invocation:
  \<^item> \<open>rfile_read\<close>: \<^verbatim>\<open>self.rfile.read(n)\<close> on the buffered reader of the connection,
    given the bytes that arrive on it; it returns bytes or raises (a negative length, a
    length beyond the memory of the machine), and the message of the exception is kept;
  \<^item> \<open>request_refused\<close>: the message of the \<^verbatim>\<open>ValueError\<close> with which the constructor
    of \<^verbatim>\<open>Request\<close> refuses a URL (an authority with unbalanced brackets, for one), if it
    does;
  \<^item> \<open>urlopen\<close>: the origin behind \<^verbatim>\<open>urlopen\<close>, called with the request and the timeout
    in seconds;
  \<^item> the two strings that \<^verbatim>\<open>send_response\<close> of the base class puts into its
    \<^verbatim>\<open>Server\<close> and \<^verbatim>\<open>Date\<close> headers.
\<close>

record env =
  rfile_read :: "string \<Rightarrow> int \<Rightarrow> string + string"
  request_refused :: "string \<Rightarrow> string option"
  urlopen :: "request \<Rightarrow> nat \<Rightarrow> urlopen_result"
  version_string :: string
  date_time_string :: string

text \<open>
  What the handler writes to the client, in order: the status line, header lines, the
  blank line of \<^verbatim>\<open>end_headers\<close>, and the byte strings given to \<^verbatim>\<open>wfile.write\<close>.
  Writing to the client is taken to succeed, and so are the \<^verbatim>\<open>print\<close> calls of the
  handler, which are not part of the model.
\<close>

datatype event = Status int | Header string string | End_headers | Write string

record outcome =
  sent :: "event list"
  origin_requests :: "request list"

section \<open>The handler\<close>

definition send_response :: "env \<Rightarrow> int \<Rightarrow> event list" where
  "send_response e code =
     [Status code, Header ''Server'' (version_string e), Header ''Date'' (date_time_string e)]"

definition add_cors_headers :: "event list" where
  "add_cors_headers =
     [Header ''Access-Control-Allow-Origin'' ''*'',
      Header ''Access-Control-Allow-Methods'' ''GET, POST, PUT, DELETE, OPTIONS'',
      Header ''Access-Control-Allow-Headers'' ''Content-Type, Authorization, X-Requested-With'',
      Header ''Access-Control-Max-Age'' ''86400'']"

definition do_OPTIONS :: "env \<Rightarrow> outcome" where
  "do_OPTIONS e =
     \<lparr>sent = send_response e 200 @ add_cors_headers @ [End_headers], origin_requests = []\<rparr>"

text \<open>\<^verbatim>\<open>self.headers.get(name)\<close>: the value of the first header of that name, compared in lower case.\<close>

fun headers_get :: "headers \<Rightarrow> string \<Rightarrow> string option" where
  "headers_get [] name = None"
| "headers_get ((k, v) # hs) name = (if lower k = lower name then Some v else headers_get hs name)"

text \<open>Lines 66 to 70: the body of the request, \<open>None\<close> without a (non-empty) Content-Length.\<close>

definition read_post_data :: "env \<Rightarrow> inbound \<Rightarrow> exn + string option" where
  "read_post_data e r =
     (case headers_get (headers r) ''Content-Length'' of
        None \<Rightarrow> Inr None
      | Some content_length \<Rightarrow>
          if content_length = [] then Inr None
          else (case py_int content_length of
                  Inl msg \<Rightarrow> Inl (Exception msg)
                | Inr n \<Rightarrow>
                    (case rfile_read e (rfile r) n of
                       Inl msg \<Rightarrow> Inl (Exception msg)
                     | Inr post_data \<Rightarrow> Inr (Some post_data))))"

text \<open>\<^verbatim>\<open>Request.add_header\<close> stores the value under the capitalized name.\<close>

definition add_header :: "string \<Rightarrow> string \<Rightarrow> request \<Rightarrow> request" where
  "add_header key val req = req\<lparr>req_headers := AList.update (capitalize key) val (req_headers req)\<rparr>"

text \<open>Lines 83 to 85: the loop over the inbound headers.\<close>

fun copy_request_headers :: "headers \<Rightarrow> request \<Rightarrow> request" where
  "copy_request_headers [] req = req"
| "copy_request_headers ((header_name, header_value) # hs) req =
     (if lower header_name \<notin> set [''host'', ''origin'', ''referer'']
      then copy_request_headers hs (add_header header_name header_value req)
      else copy_request_headers hs req)"

definition target_url :: "config \<Rightarrow> inbound \<Rightarrow> string" where
  "target_url cfg r = ''http://'' @ target_host cfg @ '':'' @ str_int (target_port cfg) @ path r"

text \<open>Lines 80 to 85: the request object that is given to \<^verbatim>\<open>urlopen\<close>.\<close>

definition build_request :: "config \<Rightarrow> string \<Rightarrow> inbound \<Rightarrow> string option \<Rightarrow> request" where
  "build_request cfg method r post_data =
     copy_request_headers (headers r) (Request (target_url cfg r) post_data method)"

text \<open>Lines 96 to 98: the loop over the headers of the origin's response.\<close>

fun copy_response_headers :: "headers \<Rightarrow> event list" where
  "copy_response_headers [] = []"
| "copy_response_headers ((header_name, header_value) # hs) =
     (if lower header_name \<notin> set [''transfer-encoding'', ''connection'']
      then Header header_name header_value # copy_response_headers hs
      else copy_response_headers hs)"

text \<open>
  The \<^verbatim>\<open>try\<close> block of \<^verbatim>\<open>proxy_request\<close> (lines 62 to 103): what it has written
  to the client and asked of the origin when it ends, and the exception that ended it, if
  one did.
\<close>

record attempt =
  written :: "event list"
  asked :: "request list"
  raised :: "exn option"

definition try_block :: "config \<Rightarrow> env \<Rightarrow> string \<Rightarrow> inbound \<Rightarrow> attempt" where
  "try_block cfg e method r =
     (case read_post_data e r of
        Inl ex \<Rightarrow> \<lparr>written = [], asked = [], raised = Some ex\<rparr>
      | Inr post_data \<Rightarrow>
          (case request_refused e (target_url cfg r) of
             Some msg \<Rightarrow> \<lparr>written = [], asked = [], raised = Some (Exception msg)\<rparr>
           | None \<Rightarrow>
               (let req = build_request cfg method r post_data in
                case urlopen e req 30 of
                  Raises ex \<Rightarrow> \<lparr>written = [], asked = [req], raised = Some ex\<rparr>
                | Returns response \<Rightarrow>
                    (let head = send_response e (getcode response) @ add_cors_headers
                                  @ copy_response_headers (resp_headers response) @ [End_headers]
                     in case read response of
                          Inl msg \<Rightarrow>
                            \<lparr>written = head, asked = [req], raised = Some (Exception msg)\<rparr>
                        | Inr body \<Rightarrow>
                            \<lparr>written = head @ [Write body], asked = [req], raised = None\<rparr>))))"

text \<open>Lines 105 to 120 and 122 to 130: the two \<^verbatim>\<open>except\<close> clauses.\<close>

definition except_HTTPError :: "env \<Rightarrow> int \<Rightarrow> string \<Rightarrow> event list" where
  "except_HTTPError e code reason =
     send_response e code @ add_cors_headers
       @ [Header ''Content-Type'' ''application/json'', End_headers,
          Write (json_dumps [(''error'', ''HTTP '' @ str_int code), (''message'', reason)])]"

definition except_Exception :: "env \<Rightarrow> string \<Rightarrow> event list" where
  "except_Exception e msg =
     send_response e 500 @ add_cors_headers
       @ [Header ''Content-Type'' ''application/json'', End_headers,
          Write (json_dumps [(''error'', ''Proxy Error''), (''message'', msg)])]"

definition proxy_request :: "config \<Rightarrow> env \<Rightarrow> string \<Rightarrow> inbound \<Rightarrow> outcome" where
  "proxy_request cfg e method r =
     (let a = try_block cfg e method r in
      case raised a of
        None \<Rightarrow> \<lparr>sent = written a, origin_requests = asked a\<rparr>
      | Some (HTTPError code reason body) \<Rightarrow>
          \<lparr>sent = written a @ except_HTTPError e code reason, origin_requests = asked a\<rparr>
      | Some (Exception msg) \<Rightarrow>
          \<lparr>sent = written a @ except_Exception e msg, origin_requests = asked a\<rparr>)"

definition do_GET :: "config \<Rightarrow> env \<Rightarrow> inbound \<Rightarrow> outcome" where
  "do_GET cfg e r = proxy_request cfg e ''GET'' r"

definition do_POST :: "config \<Rightarrow> env \<Rightarrow> inbound \<Rightarrow> outcome" where
  "do_POST cfg e r = proxy_request cfg e ''POST'' r"

definition do_PUT :: "config \<Rightarrow> env \<Rightarrow> inbound \<Rightarrow> outcome" where
  "do_PUT cfg e r = proxy_request cfg e ''PUT'' r"

definition do_DELETE :: "config \<Rightarrow> env \<Rightarrow> inbound \<Rightarrow> outcome" where
  "do_DELETE cfg e r = proxy_request cfg e ''DELETE'' r"

text \<open>
  The dispatch of the base class on the command of the request, to the five \<^verbatim>\<open>do_*\<close>
  methods that the handler defines.
\<close>

definition handle :: "config \<Rightarrow> env \<Rightarrow> inbound \<Rightarrow> outcome" where
  "handle cfg e r =
     (case command r of
        OPTIONS \<Rightarrow> do_OPTIONS e
      | GET \<Rightarrow> do_GET cfg e r
      | POST \<Rightarrow> do_POST cfg e r
      | PUT \<Rightarrow> do_PUT cfg e r
      | DELETE \<Rightarrow> do_DELETE cfg e r)"


section \<open>The response as the client reads it\<close>

text \<open>
  The client takes the first status line, the header lines up to the first blank line,
  and what follows as the body. \<open>response_body\<close> is \<open>None\<close> when what follows is not
  only bytes written as a body (a second status line or header block was written).
\<close>

definition response_status :: "event list \<Rightarrow> int option" where
  "response_status evs = (case evs of Status code # _ \<Rightarrow> Some code | _ \<Rightarrow> None)"

fun response_headers :: "event list \<Rightarrow> headers" where
  "response_headers [] = []"
| "response_headers (Header n v # evs) = (n, v) # response_headers evs"
| "response_headers (End_headers # evs) = []"
| "response_headers (ev # evs) = response_headers evs"

fun after_headers :: "event list \<Rightarrow> event list" where
  "after_headers [] = []"
| "after_headers (End_headers # evs) = evs"
| "after_headers (ev # evs) = after_headers evs"

fun body_bytes :: "event list \<Rightarrow> string option" where
  "body_bytes [] = Some []"
| "body_bytes (Write b # evs) = map_option (\<lambda>bs. b @ bs) (body_bytes evs)"
| "body_bytes (ev # evs) = None"

definition response_body :: "event list \<Rightarrow> string option" where
  "response_body evs = body_bytes (after_headers evs)"

definition cors_headers :: headers where
  "cors_headers =
     [(''Access-Control-Allow-Origin'', ''*''),
      (''Access-Control-Allow-Methods'', ''GET, POST, PUT, DELETE, OPTIONS''),
      (''Access-Control-Allow-Headers'', ''Content-Type, Authorization, X-Requested-With''),
      (''Access-Control-Max-Age'', ''86400'')]"

section \<open>Start-up\<close>

text \<open>
  \<^verbatim>\<open>main\<close> after argument parsing. The \<^verbatim>\<open>with TCPServer(...)\<close> block is left in
  one of three ways: the constructor raises \<^verbatim>\<open>OSError\<close> (the bind failed, nothing has
  been printed), or, after the banner, \<^verbatim>\<open>serve_forever\<close> is interrupted from the
  keyboard or raises \<^verbatim>\<open>OSError\<close>. The result is the list of printed strings (UTF-8)
  and the exit status.
\<close>

record args =
  proxy_port :: int
  arg_target_host :: string
  arg_target_port :: int

record os_error =
  errno :: int
  strerror :: string

text \<open>
  \<^verbatim>\<open>str(e)\<close> of an \<^verbatim>\<open>OSError\<close> that carries an error number and its text, as a
  failed bind raises it on a POSIX system.
\<close>

definition str_os_error :: "os_error \<Rightarrow> string" where
  "str_os_error e = ''[Errno '' @ str_int (errno e) @ ''] '' @ strerror e"

datatype run = Bind_fails os_error | Interrupted | Serve_fails os_error

record process_result =
  stdout :: "string list"
  exit_code :: int

definition cross_mark :: string where
  "cross_mark = [CHR 0xE2, CHR 0x9D, CHR 0x8C]"

definition light_bulb :: string where
  "light_bulb = [CHR 0xF0, CHR 0x9F, CHR 0x92, CHR 0xA1]"

definition stop_sign :: string where
  "stop_sign = [CHR 0xF0, CHR 0x9F, CHR 0x9B, CHR 0x91]"

definition banner :: "args \<Rightarrow> string list" where
  "banner a =
     [[CHR 0xF0, CHR 0x9F, CHR 0x94, CHR 0x97] @ '' CORS Proxy Server for Chroma Database'',
      replicate 50 CHR ''='',
      [CHR 0xF0, CHR 0x9F, CHR 0x93, CHR 0xA1] @ '' Proxy running on: http://localhost:''
        @ str_int (proxy_port a),
      [CHR 0xF0, CHR 0x9F, CHR 0x8E, CHR 0xAF] @ '' Target Chroma server: http://''
        @ arg_target_host a @ '':'' @ str_int (arg_target_port a),
      [CHR 0xF0, CHR 0x9F, CHR 0x8C, CHR 0x90] @ '' Configure your app to use: http://localhost:''
        @ str_int (proxy_port a),
      replicate 50 CHR ''='',
      light_bulb @ '' Usage in Chroma Explorer:'',
      ''   - Host: localhost'',
      ''   - Port: '' @ str_int (proxy_port a),
      ''   - Protocol: http'',
      replicate 50 CHR ''='',
      stop_sign @ '' Press Ctrl+C to stop the proxy server'',
      []]"

text \<open>Lines 202 to 210: the \<^verbatim>\<open>except OSError\<close> clause, up to \<^verbatim>\<open>sys.exit(1)\<close>.\<close>

definition except_OSError :: "args \<Rightarrow> os_error \<Rightarrow> string list" where
  "except_OSError a e =
     (if errno e = 48
      then [cross_mark @ '' Port '' @ str_int (proxy_port a) @ '' is already in use!'',
            light_bulb @ '' Try a different port: python3 proxy-server.py --proxy-port ''
              @ str_int (proxy_port a + 1)]
      else [cross_mark @ '' Error starting proxy server: '' @ str_os_error e])"

definition main :: "args \<Rightarrow> run \<Rightarrow> process_result" where
  "main a r =
     (case r of
        Bind_fails e \<Rightarrow> \<lparr>stdout = except_OSError a e, exit_code = 1\<rparr>
      | Interrupted \<Rightarrow>
          \<lparr>stdout = banner a @ [CHR 0x0A # stop_sign @ '' Proxy server stopped by user''],
           exit_code = 0\<rparr>
      | Serve_fails e \<Rightarrow> \<lparr>stdout = banner a @ except_OSError a e, exit_code = 1\<rparr>)"

section \<open>The header mappings in the words of the specification\<close>

text \<open>
  The specification describes the outbound headers as the inbound headers "minus a small
  exclusion set (host, origin, referer, case-insensitive match)" and the relayed headers as
  the origin's headers "minus hop-by-hop fields (transfer-encoding, connection,
  case-insensitive)". These are the two lists, entries otherwise unchanged and in order,
  with which the mappings built by the handler are compared.
\<close>

definition spec_outbound_headers :: "headers \<Rightarrow> headers" where
  "spec_outbound_headers hs =
     filter (\<lambda>(n, v). lower n \<notin> set [''host'', ''origin'', ''referer'']) hs"

definition spec_relayed_headers :: "headers \<Rightarrow> headers" where
  "spec_relayed_headers hs =
     filter (\<lambda>(n, v). lower n \<notin> set [''transfer-encoding'', ''connection'']) hs"

text \<open>
  "A valid decimal integer", as the value of \<^verbatim>\<open>Content-Length\<close>: a non-empty string of
  decimal digits.
\<close>

definition spec_decimal_integer :: "string \<Rightarrow> bool" where
  "spec_decimal_integer s = (s \<noteq> [] \<and> list_all is_digit s)"



section \<open>Sample requests and origins\<close>

text \<open>
  Concrete inputs on which the theorems below are instantiated: the proxy in its default
  configuration, an origin that answers one URL and refuses every other connection, and
  requests taken from the testable properties of the specification.
\<close>

definition quoted :: "string \<Rightarrow> string" where
  "quoted s = CHR 0x22 # s @ [CHR 0x22]"

definition sample_config :: config where
  "sample_config = \<lparr>target_host = ''localhost'', target_port = 8000\<rparr>"

text \<open>A buffered reader with memory to spare, over the bytes it is given.\<close>

definition buffered_reader :: "string \<Rightarrow> int \<Rightarrow> string + string" where
  "buffered_reader bytes n =
     (if n < - 1 then Inl ''read length must be non-negative or -1''
      else if n = - 1 then Inr bytes
      else Inr (take (nat n) bytes))"

definition sample_env :: "string \<Rightarrow> urlopen_result \<Rightarrow> env" where
  "sample_env url result =
     \<lparr>rfile_read = buffered_reader,
      request_refused = (\<lambda>url. None),
      urlopen = (\<lambda>req timeout.
          if full_url req = url then result
          else Raises (Exception ''<urlopen error [Errno 111] Connection refused>'')),
      version_string = ''BaseHTTP/0.6 Python/3.11.10'',
      date_time_string = ''Tue, 03 Nov 2026 14:00:00 GMT''\<rparr>"

definition sample_url :: string where
  "sample_url = ''http://localhost:8000/api/v1/collections?limit=10''"

definition sample_get :: "headers \<Rightarrow> inbound" where
  "sample_get hs =
     \<lparr>command = GET, path = ''/api/v1/collections?limit=10'', headers = hs, rfile = []\<rparr>"

definition sample_ok :: "headers \<Rightarrow> urlopen_result" where
  "sample_ok hs =
     Returns \<lparr>getcode = 200, resp_headers = hs,
              read = Inr (''{'' @ quoted ''items'' @ '':[]}'')\<rparr>"

definition sample_not_found :: urlopen_result where
  "sample_not_found =
     Raises (HTTPError 404 ''Not Found''
               (''{'' @ quoted ''detail'' @ '':'' @ quoted ''not found'' @ ''}''))"

definition sample_truncated :: urlopen_result where
  "sample_truncated =
     Returns \<lparr>getcode = 200,
              resp_headers = [(''Content-Type'', ''application/json''), (''Content-Length'', ''100'')],
              read = Inl ''IncompleteRead(10 bytes read, 90 more expected)''\<rparr>"

section \<open>Evaluation on concrete inputs\<close>

lemma eq_char_of_iff: "c = char_of (n :: nat) \<longleftrightarrow> take_bit 8 n = (of_char c :: nat)"
  using char_of_eq_iff [of n c] by auto

lemmas eval_simps =
  str_int_def str_nat.simps digit_char_def hex_digit_def char_of_eq_iff eq_char_of_iff
  lower_def lower_char_def upper_char_def
  py_int_def int_isspace_def is_int_char_def is_digit_def digit_val_def invalid_literal_def
  exceeds_limit_def py_repr_def repr_char_def json_dumps_def json_string_def json_escape_def
  str_isspace_def str_strip_def unwrap_def splittag_def splittype_def splithost_def
  Request_def full_url_def selector_def
  buffered_reader_def read_post_data_def add_header_def target_url_def build_request_def
  try_block_def except_HTTPError_def except_Exception_def proxy_request_def
  do_OPTIONS_def do_GET_def do_POST_def do_PUT_def do_DELETE_def handle_def
  send_response_def add_cors_headers_def
  response_status_def response_body_def cors_headers_def
  quoted_def sample_config_def sample_env_def sample_url_def sample_get_def sample_ok_def

section \<open>Decimal numbers\<close>






section \<open>What the handler writes\<close>

lemma response_headers_prefix:
  "response_headers (send_response e code @ add_cors_headers @ rest) =
     [(''Server'', version_string e), (''Date'', date_time_string e)] @ cors_headers
       @ response_headers rest"
  by (simp add: send_response_def add_cors_headers_def cors_headers_def)

lemma response_status_prefix: "response_status (send_response e code @ rest) = Some code"
  by (simp add: send_response_def response_status_def)

lemma after_headers_prefix:
  "after_headers (send_response e code @ add_cors_headers @ rest) = after_headers rest"
  by (simp add: send_response_def add_cors_headers_def)

lemma response_headers_copy:
  "response_headers (copy_response_headers hs @ End_headers # rest) =
     filter (\<lambda>(n, v). lower n \<notin> set [''transfer-encoding'', ''connection'']) hs"
  by (induction hs rule: copy_response_headers.induct) simp_all


text \<open>Every path through the handler starts with a status line and the CORS headers.\<close>

lemma sent_proxy_request_shape:
  "\<exists>code rest. sent (proxy_request cfg e method r) = send_response e code @ add_cors_headers @ rest"
  by (auto simp: proxy_request_def try_block_def except_HTTPError_def except_Exception_def Let_def
      split: sum.splits urlopen_result.splits exn.splits option.splits)

lemma sent_handle_shape:
  "\<exists>code rest. sent (handle cfg e r) = send_response e code @ add_cors_headers @ rest"
proof (cases "command r")
  case OPTIONS
  then have "sent (handle cfg e r) = send_response e 200 @ add_cors_headers @ [End_headers]"
    by (simp add: handle_def do_OPTIONS_def)
  then show ?thesis by blast
qed (simp_all add: handle_def do_GET_def do_POST_def do_PUT_def do_DELETE_def
    sent_proxy_request_shape)

section \<open>The request given to the origin\<close>

lemma copy_request_headers_fields [simp]:
  "private_full_url (copy_request_headers hs req) = private_full_url req"
  "fragment (copy_request_headers hs req) = fragment req"
  "data (copy_request_headers hs req) = data req"
  "req_method (copy_request_headers hs req) = req_method req"
  by (induction hs req rule: copy_request_headers.induct) (simp_all add: add_header_def)


lemma asked_try_block:
  "asked (try_block cfg e method r) = [req] \<Longrightarrow>
     \<exists>post_data. read_post_data e r = Inr post_data \<and>
       request_refused e (target_url cfg r) = None \<and>
       req = build_request cfg method r post_data"
  by (auto simp: try_block_def Let_def split: sum.splits option.splits urlopen_result.splits)

lemma origin_requests_proxy_request:
  "origin_requests (proxy_request cfg e method r) = asked (try_block cfg e method r)"
  by (simp add: proxy_request_def Let_def split: option.splits exn.splits)

lemma try_block_forwarded:
  "read_post_data e r = Inr post_data \<Longrightarrow> request_refused e (target_url cfg r) = None \<Longrightarrow>
   try_block cfg e method r =
     (let req = build_request cfg method r post_data in
      case urlopen e req 30 of
        Raises ex \<Rightarrow> \<lparr>written = [], asked = [req], raised = Some ex\<rparr>
      | Returns response \<Rightarrow>
          (let head = send_response e (getcode response) @ add_cors_headers
                        @ copy_response_headers (resp_headers response) @ [End_headers]
           in case read response of
                Inl msg \<Rightarrow> \<lparr>written = head, asked = [req], raised = Some (Exception msg)\<rparr>
              | Inr body \<Rightarrow> \<lparr>written = head @ [Write body], asked = [req], raised = None\<rparr>))"
  by (simp add: try_block_def)



lemma not_forwarded_when:
  "command r = OPTIONS \<or> (\<exists>ex. read_post_data e r = Inl ex)
     \<or> (\<exists>msg. request_refused e (target_url cfg r) = Some msg) \<Longrightarrow>
     origin_requests (handle cfg e r) = []"
  by (cases "command r")
     (auto simp: handle_def do_OPTIONS_def do_GET_def do_POST_def do_PUT_def do_DELETE_def
        origin_requests_proxy_request try_block_def split: sum.splits)

lemma handle_forwarded:
  "origin_requests (handle cfg e r) = [req] \<Longrightarrow>
     \<exists>method post_data. handle cfg e r = proxy_request cfg e method r \<and>
        read_post_data e r = Inr post_data \<and> request_refused e (target_url cfg r) = None \<and>
        req = build_request cfg method r post_data"
  by (cases "command r")
     (auto simp: handle_def do_OPTIONS_def do_GET_def do_POST_def do_PUT_def do_DELETE_def
        origin_requests_proxy_request dest: asked_try_block)

lemma sent_success:
  assumes "read_post_data e r = Inr post_data"
    and "request_refused e (target_url cfg r) = None"
    and "urlopen e (build_request cfg method r post_data) 30 = Returns resp"
    and "read resp = Inr body"
  shows "sent (proxy_request cfg e method r) =
           send_response e (getcode resp) @ add_cors_headers
             @ copy_response_headers (resp_headers resp) @ [End_headers, Write body]"
  using assms by (simp add: proxy_request_def try_block_forwarded Let_def)








lemma map_of_copy_request_headers:
  "map_of (req_headers (copy_request_headers hs req)) =
     map_of (rev (map (\<lambda>(n, v). (capitalize n, v)) (spec_outbound_headers hs))
             @ req_headers req)"
proof (induction hs req rule: copy_request_headers.induct)
  case (1 req)
  show ?case by (simp add: spec_outbound_headers_def)
next
  case (2 header_name header_value hs req)
  show ?case
  proof (cases "lower header_name \<notin> set [''host'', ''origin'', ''referer'']")
    case True
    then show ?thesis
      using "2.IH"(1) by (simp add: spec_outbound_headers_def add_header_def update_conv')
  next
    case False
    then show ?thesis
      using "2.IH"(2) by (auto simp: spec_outbound_headers_def)
  qed
qed

lemma distinct_copy_request_headers:
  "distinct (map fst (req_headers req)) \<Longrightarrow>
     distinct (map fst (req_headers (copy_request_headers hs req)))"
  by (induction hs req rule: copy_request_headers.induct)
     (simp_all add: add_header_def distinct_update)

lemma req_headers_build_request:
  "map_of (req_headers (build_request cfg method r post_data)) =
     map_of (rev (map (\<lambda>(n, v). (capitalize n, v)) (spec_outbound_headers (headers r))))"
  by (simp add: build_request_def Request_def map_of_copy_request_headers)

text \<open>
  Where the names kept are pairwise distinct and already in capitalized form, the headers
  given to the origin are the inbound ones without the excluded entries, in order.
\<close>

lemma update_fresh: "k \<notin> fst ` set al \<Longrightarrow> AList.update k v al = al @ [(k, v)]"
  by (induction al) auto

lemma spec_outbound_headers_Cons:
  "spec_outbound_headers ((n, v) # hs) =
     (if lower n \<notin> set [''host'', ''origin'', ''referer'']
      then (n, v) # spec_outbound_headers hs else spec_outbound_headers hs)"
  by (simp add: spec_outbound_headers_def)

lemma copy_request_headers_exact:
  "distinct (map fst (req_headers req) @ map fst (spec_outbound_headers hs)) \<Longrightarrow>
   list_all (\<lambda>(n, v). capitalize n = n) (spec_outbound_headers hs) \<Longrightarrow>
     req_headers (copy_request_headers hs req) = req_headers req @ spec_outbound_headers hs"
proof (induction hs req rule: copy_request_headers.induct)
  case (1 req)
  show ?case by (simp add: spec_outbound_headers_def)
next
  case (2 header_name header_value hs req)
  show ?case
  proof (cases "lower header_name \<notin> set [''host'', ''origin'', ''referer'']")
    case True
    then have kept: "spec_outbound_headers ((header_name, header_value) # hs) =
        (header_name, header_value) # spec_outbound_headers hs"
      by (simp add: spec_outbound_headers_Cons)
    from "2.prems" have fresh: "header_name \<notin> fst ` set (req_headers req)"
      and cap: "capitalize header_name = header_name"
      and d: "distinct (map fst (req_headers req) @ header_name
                # map fst (spec_outbound_headers hs))"
      and c: "list_all (\<lambda>(n, v). capitalize n = n) (spec_outbound_headers hs)"
      unfolding kept by auto
    have added: "req_headers (add_header header_name header_value req) =
            req_headers req @ [(header_name, header_value)]"
      by (simp add: add_header_def cap update_fresh [OF fresh])
    have "req_headers (copy_request_headers hs (add_header header_name header_value req)) =
            req_headers (add_header header_name header_value req) @ spec_outbound_headers hs"
      using d c by (intro "2.IH"(1) [OF True]) (simp_all add: added)
    with True show ?thesis
      by (simp add: kept added)
  next
    case False
    then have dropped: "spec_outbound_headers ((header_name, header_value) # hs) =
        spec_outbound_headers hs"
      by (simp add: spec_outbound_headers_Cons)
    have "req_headers (copy_request_headers hs req) = req_headers req @ spec_outbound_headers hs"
      using "2.prems" unfolding dropped by (rule "2.IH"(2) [OF False])
    with False show ?thesis
      by (simp add: dropped)
  qed
qed

lemma distinct_build_request:
  "distinct (map fst (req_headers (build_request cfg method r post_data)))"
  by (simp add: build_request_def Request_def distinct_copy_request_headers)

text \<open>
  When \<^verbatim>\<open>urlopen\<close> itself raises an exception other than \<^verbatim>\<open>HTTPError\<close> (connection
  refused, time-out before the response head, unparseable status line), nothing has been
  written yet and the second \<^verbatim>\<open>except\<close> clause writes the one response.
\<close>

lemma transport_error_before_response:
  "origin_requests (handle cfg e r) = [req] \<Longrightarrow> urlopen e req 30 = Raises (Exception msg) \<Longrightarrow>
     sent (handle cfg e r) =
       send_response e 500 @ add_cors_headers
         @ [Header ''Content-Type'' ''application/json'', End_headers,
            Write (json_dumps [(''error'', ''Proxy Error''), (''message'', msg)])]"
proof -
  assume a: "origin_requests (handle cfg e r) = [req]" "urlopen e req 30 = Raises (Exception msg)"
  then obtain m pd where h: "handle cfg e r = proxy_request cfg e m r"
    and p: "read_post_data e r = Inr pd" and n: "request_refused e (target_url cfg r) = None"
    and q: "req = build_request cfg m r pd"
    using handle_forwarded by blast
  show ?thesis
    using a(2)
    by (simp add: h q proxy_request_def try_block_forwarded [OF p n] Let_def
        except_Exception_def)
qed

section \<open>Claims of the specification\<close>

subsection \<open>CORS headers\<close>

text \<open>
  Claim C1. Every response of the handler, whether it relays the origin's answer, reports
  an origin HTTP error, reports a transport error or answers a preflight request, begins
  with a status line and carries the four CORS headers with their fixed values:
  \<^verbatim>\<open>Access-Control-Allow-Origin: *\<close>,
  \<^verbatim>\<open>Access-Control-Allow-Methods: GET, POST, PUT, DELETE, OPTIONS\<close>,
  \<^verbatim>\<open>Access-Control-Allow-Headers: Content-Type, Authorization, X-Requested-With\<close> and
  \<^verbatim>\<open>Access-Control-Max-Age: 86400\<close>. They are written before any header copied from
  the origin, so each is the first header of its name.
\<close>

theorem cors_headers_on_every_response:
  "response_status (sent (handle cfg e r)) \<noteq> None \<and>
   map_of (response_headers (sent (handle cfg e r))) ''Access-Control-Allow-Origin'' = Some ''*'' \<and>
   map_of (response_headers (sent (handle cfg e r))) ''Access-Control-Allow-Methods'' =
     Some ''GET, POST, PUT, DELETE, OPTIONS'' \<and>
   map_of (response_headers (sent (handle cfg e r))) ''Access-Control-Allow-Headers'' =
     Some ''Content-Type, Authorization, X-Requested-With'' \<and>
   map_of (response_headers (sent (handle cfg e r))) ''Access-Control-Max-Age'' = Some ''86400''"
proof -
  obtain code rest where "sent (handle cfg e r) = send_response e code @ add_cors_headers @ rest"
    using sent_handle_shape by blast
  then show ?thesis
    by (simp add: response_headers_prefix response_status_prefix cors_headers_def)
qed

subsection \<open>Origin HTTP errors\<close>

text \<open>
  Claim C2, as the code has it. When the forwarded request makes \<^verbatim>\<open>urlopen\<close> raise
  \<^verbatim>\<open>HTTPError\<close> (the origin answered with a status outside 2xx), the client receives
  the origin's status code, the \<^verbatim>\<open>Server\<close> and \<^verbatim>\<open>Date\<close> headers of the base class,
  the CORS headers and \<^verbatim>\<open>Content-Type: application/json\<close>, and as body the JSON object
  with \<^verbatim>\<open>"error"\<close> set to \<^verbatim>\<open>HTTP <code>\<close> and \<^verbatim>\<open>"message"\<close> set to the reason
  phrase. The body of the origin's error response is read for the log only and is not
  relayed.
\<close>

theorem origin_http_error_response:
  "origin_requests (handle cfg e r) = [req] \<Longrightarrow>
   urlopen e req 30 = Raises (HTTPError code reason body) \<Longrightarrow>
     response_status (sent (handle cfg e r)) = Some code \<and>
     response_headers (sent (handle cfg e r)) =
       [(''Server'', version_string e), (''Date'', date_time_string e)] @ cors_headers
         @ [(''Content-Type'', ''application/json'')] \<and>
     response_body (sent (handle cfg e r)) =
       Some (json_dumps [(''error'', ''HTTP '' @ str_int code), (''message'', reason)])"
proof -
  assume a: "origin_requests (handle cfg e r) = [req]"
    "urlopen e req 30 = Raises (HTTPError code reason body)"
  then obtain m pd where h: "handle cfg e r = proxy_request cfg e m r"
    and p: "read_post_data e r = Inr pd" and n: "request_refused e (target_url cfg r) = None"
    and q: "req = build_request cfg m r pd"
    using handle_forwarded by blast
  have "sent (handle cfg e r) =
          send_response e code @ add_cors_headers
            @ [Header ''Content-Type'' ''application/json'', End_headers,
               Write (json_dumps [(''error'', ''HTTP '' @ str_int code), (''message'', reason)])]"
    using a(2)
    by (simp add: h q proxy_request_def try_block_forwarded [OF p n] Let_def except_HTTPError_def)
  then show ?thesis
    by (simp add: response_status_prefix response_headers_prefix response_body_def
        after_headers_prefix)
qed

text \<open>The theorem at the 404 of the specification's example.\<close>

theorem origin_http_error_response_witness:
  "origin_requests (handle sample_config (sample_env sample_url sample_not_found) (sample_get [])) =
     [\<lparr>private_full_url = sample_url, fragment = None,
         data = None, req_method = ''GET'', req_headers = []\<rparr>] \<and>
   urlopen (sample_env sample_url sample_not_found)
     \<lparr>private_full_url = sample_url, fragment = None,
         data = None, req_method = ''GET'', req_headers = []\<rparr> 30 =
     Raises (HTTPError 404 ''Not Found''
               (''{'' @ quoted ''detail'' @ '':'' @ quoted ''not found'' @ ''}'')) \<and>
   response_status
     (sent (handle sample_config (sample_env sample_url sample_not_found) (sample_get []))) =
     Some 404 \<and>
   response_body
     (sent (handle sample_config (sample_env sample_url sample_not_found) (sample_get []))) =
     Some (json_dumps [(''error'', ''HTTP '' @ str_int 404), (''message'', ''Not Found'')])"
proof -
  have h: "origin_requests
             (handle sample_config (sample_env sample_url sample_not_found) (sample_get [])) =
           [\<lparr>private_full_url = sample_url, fragment = None,
               data = None, req_method = ''GET'', req_headers = []\<rparr>]"
    by (simp add: eval_simps sample_not_found_def)
  have u: "urlopen (sample_env sample_url sample_not_found)
             \<lparr>private_full_url = sample_url, fragment = None,
                 data = None, req_method = ''GET'', req_headers = []\<rparr> 30 =
           Raises (HTTPError 404 ''Not Found''
                     (''{'' @ quoted ''detail'' @ '':'' @ quoted ''not found'' @ ''}''))"
    by (simp add: sample_env_def sample_not_found_def full_url_def)
  from origin_http_error_response [OF h u] h u show ?thesis by blast
qed

text \<open>
  The origin answers 404 with the body \<^verbatim>\<open>{"detail":"not found"}\<close>: the client receives
  404 with \<^verbatim>\<open>{"error": "HTTP 404", "message": "Not Found"}\<close>, not the origin's body.
\<close>

theorem origin_error_body_counterexample:
  "response_status
     (sent (handle sample_config (sample_env sample_url sample_not_found) (sample_get []))) =
     Some 404 \<and>
   response_body
     (sent (handle sample_config (sample_env sample_url sample_not_found) (sample_get []))) =
     Some (''{'' @ quoted ''error'' @ '': '' @ quoted ''HTTP 404'' @ '', ''
             @ quoted ''message'' @ '': '' @ quoted ''Not Found'' @ ''}'') \<and>
   response_body
     (sent (handle sample_config (sample_env sample_url sample_not_found) (sample_get []))) \<noteq>
     Some (''{'' @ quoted ''detail'' @ '':'' @ quoted ''not found'' @ ''}'')"
  by (simp add: eval_simps sample_not_found_def)

subsection \<open>Preflight\<close>



subsection \<open>Headers of the outbound request\<close>

text \<open>
  Claim C4, as the code has it. The header mapping of the request given to the origin is
  built from the inbound headers in order: those whose lower-cased name is \<^verbatim>\<open>host\<close>,
  \<^verbatim>\<open>origin\<close> or \<^verbatim>\<open>referer\<close> are left out, and every other value, that of
  \<^verbatim>\<open>Authorization\<close> included, is stored unchanged under the capitalized form of its name
  (first character in upper case, the rest in lower case), a later header replacing an
  earlier one stored under the same name. Looking a name up in the outbound mapping
  therefore gives the value of the last inbound header kept under that name, and nothing
  else is in the mapping. Where the names kept are pairwise distinct and already in
  capitalized form, the outbound mapping is the inbound list without the excluded entries.
\<close>

theorem outbound_headers:
  "origin_requests (handle cfg e r) = [req] \<Longrightarrow>
     map_of (req_headers req) =
       map_of (rev (map (\<lambda>(n, v). (capitalize n, v)) (spec_outbound_headers (headers r)))) \<and>
     (distinct (map fst (spec_outbound_headers (headers r))) \<and>
      list_all (\<lambda>(n, v). capitalize n = n) (spec_outbound_headers (headers r)) \<longrightarrow>
        req_headers req = spec_outbound_headers (headers r))"
proof -
  assume "origin_requests (handle cfg e r) = [req]"
  then obtain m pd where q: "req = build_request cfg m r pd"
    using handle_forwarded by blast
  have general: "map_of (req_headers req) =
      map_of (rev (map (\<lambda>(n, v). (capitalize n, v)) (spec_outbound_headers (headers r))))"
    by (simp add: q req_headers_build_request)
  have "req_headers req = spec_outbound_headers (headers r)"
    if "distinct (map fst (spec_outbound_headers (headers r)))"
      and "list_all (\<lambda>(n, v). capitalize n = n) (spec_outbound_headers (headers r))"
    using copy_request_headers_exact
      [of "Request (target_url cfg r) pd m"
          "headers r"] that
    by (simp add: q build_request_def Request_def)
  with general show ?thesis by blast
qed

theorem outbound_headers_witness:
  "origin_requests (handle sample_config (sample_env sample_url (sample_ok []))
     (sample_get [(''Host'', ''x''), (''Origin'', ''y''), (''Referer'', ''z''),
                  (''Authorization'', ''Bearer t''), (''Accept'', ''*/*'')])) =
     [\<lparr>private_full_url = sample_url, fragment = None, data = None, req_method = ''GET'',
       req_headers = [(''Authorization'', ''Bearer t''), (''Accept'', ''*/*'')]\<rparr>] \<and>
   distinct (map fst (spec_outbound_headers
     (headers (sample_get [(''Host'', ''x''), (''Origin'', ''y''), (''Referer'', ''z''),
                           (''Authorization'', ''Bearer t''), (''Accept'', ''*/*'')])))) \<and>
   list_all (\<lambda>(n, v). capitalize n = n) (spec_outbound_headers
     (headers (sample_get [(''Host'', ''x''), (''Origin'', ''y''), (''Referer'', ''z''),
                           (''Authorization'', ''Bearer t''), (''Accept'', ''*/*'')]))) \<and>
   map_of (req_headers \<lparr>private_full_url = sample_url, fragment = None,
       data = None, req_method = ''GET'',
       req_headers = [(''Authorization'', ''Bearer t''), (''Accept'', ''*/*'')]\<rparr>) =
     map_of (rev (map (\<lambda>(n, v). (capitalize n, v))
                   (spec_outbound_headers
                      (headers (sample_get [(''Host'', ''x''), (''Origin'', ''y''),
                         (''Referer'', ''z''), (''Authorization'', ''Bearer t''),
                         (''Accept'', ''*/*'')]))))) \<and>
   req_headers \<lparr>private_full_url = sample_url, fragment = None,
       data = None, req_method = ''GET'',
       req_headers = [(''Authorization'', ''Bearer t''), (''Accept'', ''*/*'')]\<rparr> =
     spec_outbound_headers
       (headers (sample_get [(''Host'', ''x''), (''Origin'', ''y''), (''Referer'', ''z''),
                             (''Authorization'', ''Bearer t''), (''Accept'', ''*/*'')]))"
proof -
  let ?r = "sample_get [(''Host'', ''x''), (''Origin'', ''y''), (''Referer'', ''z''),
                        (''Authorization'', ''Bearer t''), (''Accept'', ''*/*'')]"
  have h: "origin_requests (handle sample_config (sample_env sample_url (sample_ok [])) ?r) =
     [\<lparr>private_full_url = sample_url, fragment = None, data = None, req_method = ''GET'',
       req_headers = [(''Authorization'', ''Bearer t''), (''Accept'', ''*/*'')]\<rparr>]"
    by (simp add: eval_simps)
  have k: "spec_outbound_headers (headers ?r) =
      [(''Authorization'', ''Bearer t''), (''Accept'', ''*/*'')]"
    by (simp add: eval_simps spec_outbound_headers_def)
  have d: "distinct (map fst (spec_outbound_headers (headers ?r)))"
    by (simp add: k)
  have c: "list_all (\<lambda>(n, v). capitalize n = n) (spec_outbound_headers (headers ?r))"
    unfolding k by (simp add: lower_def lower_char_def upper_char_def char_of_eq_iff eq_char_of_iff)
  from outbound_headers [OF h] h d c show ?thesis by blast
qed

text \<open>
  An inbound \<^verbatim>\<open>X-API-Key\<close> header is stored as \<^verbatim>\<open>X-api-key\<close>, and of two
  \<^verbatim>\<open>Accept\<close> headers only the second is kept: neither the entry
  \<^verbatim>\<open>X-API-Key: k\<close> nor the entry \<^verbatim>\<open>Accept: text/html\<close> of the inbound list
  without the three excluded names is in the outbound mapping.
\<close>

theorem outbound_headers_counterexample:
  "origin_requests (handle sample_config (sample_env sample_url (sample_ok []))
     (sample_get [(''Host'', ''x''), (''Origin'', ''y''), (''Referer'', ''z''),
                  (''X-API-Key'', ''k''), (''Accept'', ''text/html''),
                  (''Accept'', ''application/json'')])) =
     [\<lparr>private_full_url = sample_url, fragment = None, data = None, req_method = ''GET'',
       req_headers = [(''X-api-key'', ''k''), (''Accept'', ''application/json'')]\<rparr>] \<and>
   spec_outbound_headers
     [(''Host'', ''x''), (''Origin'', ''y''), (''Referer'', ''z''),
      (''X-API-Key'', ''k''), (''Accept'', ''text/html''), (''Accept'', ''application/json'')] =
     [(''X-API-Key'', ''k''), (''Accept'', ''text/html''), (''Accept'', ''application/json'')] \<and>
   (''X-API-Key'', ''k'') \<notin> set [(''X-api-key'', ''k''), (''Accept'', ''application/json'')] \<and>
   (''Accept'', ''text/html'') \<notin> set [(''X-api-key'', ''k''), (''Accept'', ''application/json'')]"
  by (simp add: eval_simps spec_outbound_headers_def)

subsection \<open>Transparent forwarding\<close>




subsection \<open>Transport errors\<close>

text \<open>
  Claim C6 at a failing input. The origin answers 200 with its headers, and the connection
  breaks while the body is read: \<^verbatim>\<open>response.read()\<close> raises after the status line and
  the headers have been written. The \<^verbatim>\<open>except Exception\<close> clause then writes a second
  status line, 500, its headers and the JSON error into the same response. The client
  reads status 200 and, where the body should be, the text of a second response; it does
  not receive status 500 with the JSON error as its body.
\<close>

theorem transport_error_after_headers:
  "sent (handle sample_config (sample_env sample_url sample_truncated) (sample_get [])) =
     [Status 200,
      Header ''Server'' ''BaseHTTP/0.6 Python/3.11.10'',
      Header ''Date'' ''Tue, 03 Nov 2026 14:00:00 GMT'',
      Header ''Access-Control-Allow-Origin'' ''*'',
      Header ''Access-Control-Allow-Methods'' ''GET, POST, PUT, DELETE, OPTIONS'',
      Header ''Access-Control-Allow-Headers'' ''Content-Type, Authorization, X-Requested-With'',
      Header ''Access-Control-Max-Age'' ''86400'',
      Header ''Content-Type'' ''application/json'',
      Header ''Content-Length'' ''100'',
      End_headers,
      Status 500,
      Header ''Server'' ''BaseHTTP/0.6 Python/3.11.10'',
      Header ''Date'' ''Tue, 03 Nov 2026 14:00:00 GMT'',
      Header ''Access-Control-Allow-Origin'' ''*'',
      Header ''Access-Control-Allow-Methods'' ''GET, POST, PUT, DELETE, OPTIONS'',
      Header ''Access-Control-Allow-Headers'' ''Content-Type, Authorization, X-Requested-With'',
      Header ''Access-Control-Max-Age'' ''86400'',
      Header ''Content-Type'' ''application/json'',
      End_headers,
      Write (''{'' @ quoted ''error'' @ '': '' @ quoted ''Proxy Error'' @ '', ''
               @ quoted ''message'' @ '': ''
               @ quoted ''IncompleteRead(10 bytes read, 90 more expected)'' @ ''}'')] \<and>
   response_status
     (sent (handle sample_config (sample_env sample_url sample_truncated) (sample_get []))) =
     Some 200 \<and>
   response_body
     (sent (handle sample_config (sample_env sample_url sample_truncated) (sample_get []))) =
     None"
  by (simp add: eval_simps sample_truncated_def)

subsection \<open>Headers of the relayed response\<close>

text \<open>
  Claim C7, as the code has it. When the origin's response is relayed, the headers the
  client receives are, in this order: the \<^verbatim>\<open>Server\<close> and \<^verbatim>\<open>Date\<close> headers that
  \<^verbatim>\<open>send_response\<close> writes, the four CORS headers, and the origin's response headers
  without those whose lower-cased name is \<^verbatim>\<open>transfer-encoding\<close> or
  \<^verbatim>\<open>connection\<close>; every other origin header is relayed with its name and value
  unchanged, duplicates and order kept.
\<close>

theorem relayed_headers:
  "origin_requests (handle cfg e r) = [req] \<Longrightarrow> urlopen e req 30 = Returns resp \<Longrightarrow>
   read resp = Inr body \<Longrightarrow>
     response_headers (sent (handle cfg e r)) =
       [(''Server'', version_string e), (''Date'', date_time_string e)] @ cors_headers
         @ spec_relayed_headers (resp_headers resp)"
proof -
  assume a: "origin_requests (handle cfg e r) = [req]" "urlopen e req 30 = Returns resp"
    "read resp = Inr body"
  then obtain m pd where h: "handle cfg e r = proxy_request cfg e m r"
    and p: "read_post_data e r = Inr pd" and n: "request_refused e (target_url cfg r) = None"
    and q: "req = build_request cfg m r pd"
    using handle_forwarded by blast
  have "sent (handle cfg e r) = send_response e (getcode resp) @ add_cors_headers
             @ copy_response_headers (resp_headers resp) @ [End_headers, Write body]"
    using sent_success [OF p n _ a(3)] a(2) by (simp add: h q)
  then show ?thesis
    by (simp add: response_headers_prefix response_headers_copy spec_relayed_headers_def)
qed

theorem relayed_headers_witness:
  "origin_requests (handle sample_config
       (sample_env sample_url (sample_ok [(''Content-Type'', ''application/json''),
          (''Transfer-Encoding'', ''chunked''), (''Set-Cookie'', ''a=1''),
          (''Connection'', ''close''), (''Set-Cookie'', ''b=2'')]))
       (sample_get [])) =
     [\<lparr>private_full_url = sample_url, fragment = None,
         data = None, req_method = ''GET'', req_headers = []\<rparr>] \<and>
   response_headers (sent (handle sample_config
       (sample_env sample_url (sample_ok [(''Content-Type'', ''application/json''),
          (''Transfer-Encoding'', ''chunked''), (''Set-Cookie'', ''a=1''),
          (''Connection'', ''close''), (''Set-Cookie'', ''b=2'')]))
       (sample_get []))) =
     [(''Server'', ''BaseHTTP/0.6 Python/3.11.10''), (''Date'', ''Tue, 03 Nov 2026 14:00:00 GMT'')]
       @ cors_headers
       @ [(''Content-Type'', ''application/json''), (''Set-Cookie'', ''a=1''),
          (''Set-Cookie'', ''b=2'')]"
proof -
  let ?hs = "[(''Content-Type'', ''application/json''), (''Transfer-Encoding'', ''chunked''),
              (''Set-Cookie'', ''a=1''), (''Connection'', ''close''), (''Set-Cookie'', ''b=2'')]"
  let ?req = "\<lparr>private_full_url = sample_url, fragment = None,
      data = None, req_method = ''GET'', req_headers = []\<rparr>"
  let ?resp = "\<lparr>getcode = 200, resp_headers = ?hs,
                 read = Inr (''{'' @ quoted ''items'' @ '':[]}'') :: string + string\<rparr>"
  have h: "origin_requests (handle sample_config (sample_env sample_url (sample_ok ?hs))
             (sample_get [])) = [?req]"
    by (simp add: eval_simps)
  have u: "urlopen (sample_env sample_url (sample_ok ?hs)) ?req 30 = Returns ?resp"
    by (simp add: sample_env_def sample_ok_def full_url_def)
  have b: "read ?resp = Inr (''{'' @ quoted ''items'' @ '':[]}'')"
    by simp
  have f: "spec_relayed_headers ?hs =
           [(''Content-Type'', ''application/json''), (''Set-Cookie'', ''a=1''),
            (''Set-Cookie'', ''b=2'')]"
    by (simp add: spec_relayed_headers_def lower_def lower_char_def char_of_eq_iff eq_char_of_iff)
  from relayed_headers [OF h u b] h f show ?thesis
    by (simp add: sample_env_def)
qed

text \<open>
  With an origin that sends \<^verbatim>\<open>Content-Type\<close> and \<^verbatim>\<open>Transfer-Encoding\<close> only, the
  client also receives a \<^verbatim>\<open>Server\<close> and a \<^verbatim>\<open>Date\<close> header, which are neither CORS
  headers nor headers of the origin.
\<close>

theorem relayed_headers_counterexample:
  "response_headers (sent (handle sample_config
       (sample_env sample_url (sample_ok [(''Content-Type'', ''application/json''),
          (''Transfer-Encoding'', ''chunked'')]))
       (sample_get []))) =
     [(''Server'', ''BaseHTTP/0.6 Python/3.11.10''), (''Date'', ''Tue, 03 Nov 2026 14:00:00 GMT'')]
       @ cors_headers @ [(''Content-Type'', ''application/json'')] \<and>
   spec_relayed_headers
     [(''Content-Type'', ''application/json''), (''Transfer-Encoding'', ''chunked'')] =
     [(''Content-Type'', ''application/json'')] \<and>
   (''Server'', ''BaseHTTP/0.6 Python/3.11.10'') \<notin>
     set (cors_headers @ [(''Content-Type'', ''application/json'')]) \<and>
   (''Date'', ''Tue, 03 Nov 2026 14:00:00 GMT'') \<notin>
     set (cors_headers @ [(''Content-Type'', ''application/json'')])"
  by (simp add: eval_simps spec_relayed_headers_def)

subsection \<open>Duplicate inbound headers\<close>

text \<open>
  Claim C8, as the code has it. The outbound request holds one value for each header
  name. When the inbound request has two headers of the same name, neither excluded nor
  followed by a further header stored under that name, the outbound request carries the
  value of the second under the capitalized name, and the different value of the first is
  not forwarded.
\<close>

theorem duplicate_headers_last_wins:
  "origin_requests (handle cfg e r) = [req] \<Longrightarrow>
   headers r = hs1 @ (n, v1) # hs2 @ (n, v2) # hs3 \<Longrightarrow>
   lower n \<notin> set [''host'', ''origin'', ''referer''] \<Longrightarrow>
   capitalize n \<notin> set (map (capitalize \<circ> fst) hs3) \<Longrightarrow>
   v1 \<noteq> v2 \<Longrightarrow>
     distinct (map fst (req_headers req)) \<and>
     map_of (req_headers req) (capitalize n) = Some v2 \<and>
     (capitalize n, v1) \<notin> set (req_headers req)"
proof -
  assume a: "origin_requests (handle cfg e r) = [req]"
    and hs: "headers r = hs1 @ (n, v1) # hs2 @ (n, v2) # hs3"
    and keep: "lower n \<notin> set [''host'', ''origin'', ''referer'']"
    and later: "capitalize n \<notin> set (map (capitalize \<circ> fst) hs3)"
    and diff: "v1 \<noteq> v2"
  obtain m pd where q: "req = build_request cfg m r pd"
    using a handle_forwarded by blast
  have d: "distinct (map fst (req_headers req))"
    by (simp add: q distinct_build_request)
  let ?cap = "\<lambda>(n :: string, v :: string). (capitalize n, v)"
  have none: "map_of (rev (map ?cap (spec_outbound_headers hs3))) (capitalize n) = None"
  proof -
    have "capitalize n \<notin> fst ` set (rev (map ?cap (spec_outbound_headers hs3)))"
      using later by (auto simp: image_iff spec_outbound_headers_def)
    then show ?thesis by (simp add: map_of_eq_None_iff)
  qed
  have split: "spec_outbound_headers (headers r) =
      spec_outbound_headers hs1 @ (n, v1) # spec_outbound_headers hs2
        @ (n, v2) # spec_outbound_headers hs3"
    using keep by (simp add: hs spec_outbound_headers_def)
  have last: "map_of (req_headers req) (capitalize n) = Some v2"
    using none by (simp add: q req_headers_build_request split map_add_def)
  have "(capitalize n, v1) \<notin> set (req_headers req)"
  proof
    assume "(capitalize n, v1) \<in> set (req_headers req)"
    with d have "map_of (req_headers req) (capitalize n) = Some v1" by simp
    with last diff show False by simp
  qed
  with last d show ?thesis by simp
qed

theorem duplicate_headers_last_wins_witness:
  "origin_requests (handle sample_config (sample_env sample_url (sample_ok []))
     (sample_get [(''Host'', ''x''), (''Accept'', ''text/html''), (''X-Custom'', ''w''),
                  (''Accept'', ''application/json'')])) =
     [\<lparr>private_full_url = sample_url, fragment = None, data = None, req_method = ''GET'',
       req_headers = [(''Accept'', ''application/json''), (''X-custom'', ''w'')]\<rparr>] \<and>
   headers (sample_get [(''Host'', ''x''), (''Accept'', ''text/html''), (''X-Custom'', ''w''),
                        (''Accept'', ''application/json'')]) =
     [(''Host'', ''x'')] @ (''Accept'', ''text/html'') # [(''X-Custom'', ''w'')]
       @ (''Accept'', ''application/json'') # [] \<and>
   lower ''Accept'' \<notin> set [''host'', ''origin'', ''referer''] \<and>
   capitalize ''Accept'' \<notin> set (map (capitalize \<circ> fst) []) \<and>
   ''text/html'' \<noteq> ''application/json'' \<and>
   map_of (req_headers \<lparr>private_full_url = sample_url, fragment = None,
       data = None, req_method = ''GET'',
       req_headers = [(''Accept'', ''application/json''), (''X-custom'', ''w'')]\<rparr>)
     (capitalize ''Accept'') = Some ''application/json'' \<and>
   (capitalize ''Accept'', ''text/html'') \<notin>
     set (req_headers \<lparr>private_full_url = sample_url, fragment = None,
         data = None, req_method = ''GET'',
       req_headers = [(''Accept'', ''application/json''), (''X-custom'', ''w'')]\<rparr>)"
proof -
  let ?r = "sample_get [(''Host'', ''x''), (''Accept'', ''text/html''), (''X-Custom'', ''w''),
                        (''Accept'', ''application/json'')]"
  let ?req = "\<lparr>private_full_url = sample_url, fragment = None,
      data = None, req_method = ''GET'',
                req_headers = [(''Accept'', ''application/json''), (''X-custom'', ''w'')]\<rparr>"
  have h: "origin_requests (handle sample_config (sample_env sample_url (sample_ok [])) ?r) =
             [?req]"
    by (simp add: eval_simps)
  have hs: "headers ?r = [(''Host'', ''x'')] @ (''Accept'', ''text/html'') # [(''X-Custom'', ''w'')]
              @ (''Accept'', ''application/json'') # []"
    by (simp add: sample_get_def)
  have keep: "lower ''Accept'' \<notin> set [''host'', ''origin'', ''referer'']"
    by (simp add: lower_def lower_char_def char_of_eq_iff)
  have later: "capitalize ''Accept'' \<notin> set (map (capitalize \<circ> fst) [])"
    by simp
  have diff: "''text/html'' \<noteq> ''application/json''"
    by simp
  from duplicate_headers_last_wins [OF h hs keep later diff] h hs keep later diff
  show ?thesis by blast
qed

text \<open>
  Two \<^verbatim>\<open>X-Tag\<close> headers arrive and one is given to the origin, under the name
  \<^verbatim>\<open>X-tag\<close>: the first value is lost.
\<close>

theorem duplicate_headers_counterexample:
  "origin_requests (handle sample_config (sample_env sample_url (sample_ok []))
     (sample_get [(''X-Tag'', ''a''), (''X-Tag'', ''b'')])) =
     [\<lparr>private_full_url = sample_url, fragment = None, data = None, req_method = ''GET'',
       req_headers = [(''X-tag'', ''b'')]\<rparr>] \<and>
   spec_outbound_headers [(''X-Tag'', ''a''), (''X-Tag'', ''b'')] =
     [(''X-Tag'', ''a''), (''X-Tag'', ''b'')] \<and>
   length [(''X-tag'', ''b'')] < length [(''X-Tag'', ''a''), (''X-Tag'', ''b'')] \<and>
   ''a'' \<notin> snd ` set [(''X-tag'', ''b'')]"
  by (simp add: eval_simps spec_outbound_headers_def)

subsection \<open>Bind failure at start-up\<close>

text \<open>
  Claim C9 at a failing input. On Linux the number of "address already in use" is 98, and
  a bind to a port that another process holds raises
  \<^verbatim>\<open>OSError(98, 'Address already in use')\<close>. Line 203 compares the number with 48,
  which is the number of that error on macOS and the BSDs only. On Linux the branch that
  names the port and proposes the next one is therefore never taken: the port in use is
  reported by the general line, in the same words as any other failure of the bind (here
  a port below 1024 without the privilege, number 13), and only the text of the operating
  system tells the two apart. The process does end with status 1.
\<close>

theorem port_in_use_reported_as_general_error:
  "main \<lparr>proxy_port = 5001, arg_target_host = ''localhost'', arg_target_port = 8000\<rparr>
       (Bind_fails \<lparr>errno = 98, strerror = ''Address already in use''\<rparr>) =
     \<lparr>stdout = [cross_mark @ '' Error starting proxy server: [Errno 98] Address already in use''],
      exit_code = 1\<rparr> \<and>
   main \<lparr>proxy_port = 80, arg_target_host = ''localhost'', arg_target_port = 8000\<rparr>
       (Bind_fails \<lparr>errno = 13, strerror = ''Permission denied''\<rparr>) =
     \<lparr>stdout = [cross_mark @ '' Error starting proxy server: [Errno 13] Permission denied''],
      exit_code = 1\<rparr> \<and>
   main \<lparr>proxy_port = 5001, arg_target_host = ''localhost'', arg_target_port = 8000\<rparr>
       (Bind_fails \<lparr>errno = 48, strerror = ''Address already in use''\<rparr>) =
     \<lparr>stdout = [cross_mark @ '' Port 5001 is already in use!'',
                light_bulb @ '' Try a different port: python3 proxy-server.py --proxy-port 5002''],
      exit_code = 1\<rparr> \<and>
   stdout (main \<lparr>proxy_port = 5001, arg_target_host = ''localhost'', arg_target_port = 8000\<rparr>
       (Bind_fails \<lparr>errno = 98, strerror = ''Address already in use''\<rparr>)) \<noteq>
     [cross_mark @ '' Port 5001 is already in use!'',
      light_bulb @ '' Try a different port: python3 proxy-server.py --proxy-port 5002'']"
  by (simp add: main_def except_OSError_def str_os_error_def str_int_def str_nat.simps
      digit_char_def char_of_eq_iff eq_char_of_iff)

subsection \<open>Content-Length that is not a number\<close>

text \<open>
  Claim C10, as the code has it. For a request other than OPTIONS whose first
  \<^verbatim>\<open>Content-Length\<close> header has a non-empty value that \<^verbatim>\<open>int\<close> rejects, nothing is
  asked of the origin, and the client receives one response: status 500 with the JSON body
  whose \<^verbatim>\<open>"error"\<close> is \<^verbatim>\<open>Proxy Error\<close> and whose \<^verbatim>\<open>"message"\<close> is the message of
  the \<^verbatim>\<open>ValueError\<close> that \<^verbatim>\<open>int\<close> raised; the second \<^verbatim>\<open>except\<close> clause catches it.
  What \<^verbatim>\<open>int\<close> rejects is not what is not a decimal integer: it accepts white space
  around the number, a sign, and single underscores between digits. An empty value does
  not pass the test \<^verbatim>\<open>if content_length:\<close> and never reaches \<^verbatim>\<open>int\<close>.
\<close>

theorem invalid_content_length:
  "command r \<noteq> OPTIONS \<Longrightarrow> headers_get (headers r) ''Content-Length'' = Some v \<Longrightarrow>
   v \<noteq> [] \<Longrightarrow> py_int v = Inl msg \<Longrightarrow>
     origin_requests (handle cfg e r) = [] \<and>
     sent (handle cfg e r) =
       send_response e 500 @ add_cors_headers
         @ [Header ''Content-Type'' ''application/json'', End_headers,
            Write (json_dumps [(''error'', ''Proxy Error''), (''message'', msg)])]"
  by (cases "command r")
     (simp_all add: handle_def do_GET_def do_POST_def do_PUT_def do_DELETE_def
        proxy_request_def try_block_def read_post_data_def except_Exception_def)

text \<open>
  The theorem at a POST with \<^verbatim>\<open>content-length: 12abc\<close>: the message is
  \<^verbatim>\<open>invalid literal for int() with base 10: '12abc'\<close>.
\<close>

theorem invalid_content_length_witness:
  "command \<lparr>command = POST, path = ''/api/v1/collections'',
            headers = [(''content-length'', ''12abc'')], rfile = ''{}''\<rparr> \<noteq> OPTIONS \<and>
   headers_get (headers \<lparr>command = POST, path = ''/api/v1/collections'',
            headers = [(''content-length'', ''12abc'')], rfile = ''{}''\<rparr>) ''Content-Length'' =
     Some ''12abc'' \<and>
   ''12abc'' \<noteq> [] \<and>
   py_int ''12abc'' =
     Inl (''invalid literal for int() with base 10: '' @ [CHR 0x27] @ ''12abc'' @ [CHR 0x27]) \<and>
   origin_requests (handle sample_config (sample_env sample_url (sample_ok []))
     \<lparr>command = POST, path = ''/api/v1/collections'',
      headers = [(''content-length'', ''12abc'')], rfile = ''{}''\<rparr>) = [] \<and>
   sent (handle sample_config (sample_env sample_url (sample_ok []))
     \<lparr>command = POST, path = ''/api/v1/collections'',
      headers = [(''content-length'', ''12abc'')], rfile = ''{}''\<rparr>) =
     send_response (sample_env sample_url (sample_ok [])) 500 @ add_cors_headers
       @ [Header ''Content-Type'' ''application/json'', End_headers,
          Write (json_dumps [(''error'', ''Proxy Error''),
            (''message'', ''invalid literal for int() with base 10: ''
               @ [CHR 0x27] @ ''12abc'' @ [CHR 0x27])])]"
proof -
  let ?r = "\<lparr>command = POST, path = ''/api/v1/collections'',
              headers = [(''content-length'', ''12abc'')], rfile = ''{}''\<rparr>"
  have h1: "command ?r \<noteq> OPTIONS"
    by simp
  have h2: "headers_get (headers ?r) ''Content-Length'' = Some ''12abc''"
    by (simp add: lower_def lower_char_def char_of_eq_iff eq_char_of_iff)
  have h3: "''12abc'' \<noteq> []"
    by simp
  have h4: "py_int ''12abc'' =
      Inl (''invalid literal for int() with base 10: '' @ [CHR 0x27] @ ''12abc'' @ [CHR 0x27])"
    by (simp add: py_int_def int_isspace_def is_int_char_def is_digit_def digit_val_def
        invalid_literal_def py_repr_def repr_char_def Let_def)
  from invalid_content_length [OF h1 h2 h3 h4] h1 h2 h3 h4 show ?thesis by blast
qed

text \<open>
  Two requests whose \<^verbatim>\<open>Content-Length\<close> header is present and is not a decimal
  integer, and which are given to the origin all the same. A POST with the header
  \<^verbatim>\<open>Content-Length:\<close> and no value is forwarded without a body. A POST with
  \<^verbatim>\<open>Content-Length: 1_0\<close> is forwarded with the first ten bytes that arrive as its
  body, because \<^verbatim>\<open>int('1_0')\<close> is 10. In both cases the origin's answer is relayed.
\<close>

theorem invalid_content_length_counterexample:
  "headers_get [(''Content-Length'', [])] ''Content-Length'' = Some [] \<and>
   \<not> spec_decimal_integer [] \<and>
   origin_requests (handle sample_config
       (sample_env ''http://localhost:8000/api/v1/collections'' (sample_ok []))
       \<lparr>command = POST, path = ''/api/v1/collections'',
        headers = [(''Content-Length'', [])], rfile = ''{}''\<rparr>) =
     [\<lparr>private_full_url = ''http://localhost:8000/api/v1/collections'', fragment = None,
       data = None, req_method = ''POST'', req_headers = [(''Content-length'', [])]\<rparr>] \<and>
   response_status (sent (handle sample_config
       (sample_env ''http://localhost:8000/api/v1/collections'' (sample_ok []))
       \<lparr>command = POST, path = ''/api/v1/collections'',
        headers = [(''Content-Length'', [])], rfile = ''{}''\<rparr>)) = Some 200 \<and>
   headers_get [(''Content-Length'', ''1_0'')] ''Content-Length'' = Some ''1_0'' \<and>
   \<not> spec_decimal_integer ''1_0'' \<and>
   py_int ''1_0'' = Inr 10 \<and>
   origin_requests (handle sample_config
       (sample_env ''http://localhost:8000/api/v1/collections'' (sample_ok []))
       \<lparr>command = POST, path = ''/api/v1/collections'',
        headers = [(''Content-Length'', ''1_0'')], rfile = ''0123456789abc''\<rparr>) =
     [\<lparr>private_full_url = ''http://localhost:8000/api/v1/collections'', fragment = None,
       data = Some ''0123456789'', req_method = ''POST'',
       req_headers = [(''Content-length'', ''1_0'')]\<rparr>] \<and>
   response_status (sent (handle sample_config
       (sample_env ''http://localhost:8000/api/v1/collections'' (sample_ok []))
       \<lparr>command = POST, path = ''/api/v1/collections'',
        headers = [(''Content-Length'', ''1_0'')], rfile = ''0123456789abc''\<rparr>)) = Some 200"
  by (simp add: eval_simps spec_decimal_integer_def)

end
